theory Spec2Isabelle
  imports Complex_Main "HOL-Library.Signed_Division" "HOL-Library.Word"
begin

section \<open>The rtNEAT controller of OpenNero (ai/rtneat/rtNEAT.cpp)\<close>

text \<open>
  The controller \<open>RTNEAT\<close> keeps a population of organisms, a table binding simulation
  bodies to brains (\<open>PyOrganism\<close> objects), a queue of brains waiting for a body, and the
  counters that schedule steady-state evolution. Pointers are modelled as natural-number
  addresses into two heaps (organisms and brains), so that two brains holding the same
  organism, or one brain listed twice, behave as in the C++ code. \<open>time_alive\<close> and
  \<open>NEAT::time_alive_minimum\<close> are 32-bit signed integers (words read with \<open>sint\<close>, so
  that the increment wraps around); the counters of \<open>RTNEAT\<close>, whose declarations are in
  rtNEAT.h, are natural numbers; scores, fitness and the compatibility threshold are real
  numbers (the arithmetic of \<open>F32\<close>/\<open>F64\<close> without rounding, infinities or NaN).
\<close>

subsection \<open>Data\<close>

text \<open>The fields of \<open>NEAT::Organism\<close> that the controller reads and writes.\<close>

record organism =
  fitness :: real
  time_alive :: "32 word"
  smited :: bool

text \<open>A brain: \<open>PyOrganism\<close>, with the organism it wraps and its raw score.\<close>

record pyorganism =
  mOrganism :: nat
  mAbsoluteScore :: real

datatype error =
  AssertionFailed string
| UndefinedBehaviour string

text \<open>
  Modelled from the spec: the macros \<open>Assert\<close> and \<open>AssertMsg\<close> come from core/Common.h,
  which is not part of the sources at hand. The spec calls them fatal assertions: with
  assertions compiled in (\<open>en\<close>), a false condition ends the call with the message;
  compiled out, the statement does nothing. The last argument is the rest of the
  computation.
\<close>

definition AssertMsg :: "bool \<Rightarrow> bool \<Rightarrow> string \<Rightarrow> (error + 'a) \<Rightarrow> (error + 'a)" where
  "AssertMsg en cond msg rest = (if en \<and> \<not> cond then Inl (AssertionFailed msg) else rest)"

text \<open>
  Modelled from the spec: \<open>BrainBodyMap\<close> is declared in rtNEAT.h (a bidirectional map
  between bodies and brains); the spec describes it as a bijection. It is a list of pairs
  (body, brain) in the order of the left view, that is by body; an insertion is refused
  when the body or the brain is already present on its side.
\<close>

type_synonym brain_body_map = "(nat \<times> nat) list"

definition left_find :: "brain_body_map \<Rightarrow> nat \<Rightarrow> nat option" where
  "left_find m body = map_of m body"

definition bbm_insert :: "nat \<times> nat \<Rightarrow> brain_body_map \<Rightarrow> brain_body_map" where
  "bbm_insert p m =
     (if fst p \<in> fst ` set m \<or> snd p \<in> snd ` set m then m else insort_key fst p m)"

definition right_erase :: "nat \<Rightarrow> brain_body_map \<Rightarrow> brain_body_map" where
  "right_erase brain m = filter (\<lambda>p. snd p \<noteq> brain) m"

text \<open>
  The members of \<open>RTNEAT\<close>, the two heaps, and the two globals of namespace \<open>NEAT\<close> that
  the controller uses. \<open>'p\<close> is the state of the genome engine (\<open>NEAT::Population\<close>).
\<close>

record 'p rtneat =
  mPopulation :: 'p
  orgs :: "nat \<Rightarrow> organism"
  brains :: "nat \<Rightarrow> pyorganism"
  mWaitingBrainList :: "nat list"
  mBrainList :: "nat list"
  mBrainBodyMap :: brain_body_map
  mOffspringCount :: nat
  mSpawnTickCount :: nat
  mEvolutionTickCount :: nat
  mTotalUnitsDeleted :: nat
  mUnitsToDeleteBeforeFirstJudgment :: nat
  mTimeBetweenEvolutions :: nat
  time_alive_minimum :: "32 word"
  compat_threshold :: real

text \<open>
  The genome engine (rtneat/population.h) is external: its operations are parameters.
  Each works on the organism heap together with the engine's own state; the ones that
  read \<open>NEAT::compat_threshold\<close> receive it as their first argument.
\<close>

type_synonym 'p world = "(nat \<Rightarrow> organism) \<times> 'p"

record 'p genome_engine =
  remove_worst :: "'p world \<Rightarrow> nat option \<times> 'p world"
  num_species :: "'p world \<Rightarrow> nat"
  estimate_average :: "nat \<Rightarrow> 'p world \<Rightarrow> 'p world"
  reproduce_one :: "real \<Rightarrow> nat \<Rightarrow> 'p world \<Rightarrow> nat \<times> 'p world"
  organisms :: "'p world \<Rightarrow> nat list"
  reassign_species :: "real \<Rightarrow> nat \<Rightarrow> 'p world \<Rightarrow> 'p world"

definition world :: "'p rtneat \<Rightarrow> 'p world" where
  "world st = (orgs st, mPopulation st)"

definition set_world :: "'p world \<Rightarrow> 'p rtneat \<Rightarrow> 'p rtneat" where
  "set_world w st = st\<lparr>orgs := fst w, mPopulation := snd w\<rparr>"

subsection \<open>Construction\<close>

text \<open>The decimal digits of a number, as the stream operator of the message prints it.\<close>

fun decimal :: "nat \<Rightarrow> string" where
  "decimal n =
     (if n < 10 then [''0123456789'' ! n]
      else decimal (n div 10) @ [''0123456789'' ! (n mod 10)])"

text \<open>
  The two constructors of \<open>RTNEAT\<close> (lines 40 to 58 and 66 to 85) differ only in how the
  engine builds the population; \<open>w\<close> is the world with that population. The constructors
  initialise \<open>mPopulation\<close>, \<open>mWaitingBrainList\<close>, \<open>mBrainList\<close>, \<open>mOffspringCount\<close> and
  \<open>NEAT::time_alive_minimum\<close>, create one brain for each organism of the population, at
  the addresses 0, 1, ... in this order, and push each onto \<open>mWaitingBrainList\<close>;
  \<open>mBrainList\<close> stays empty. What they do not set is taken from \<open>raw\<close>: the members that
  the constructors leave alone, the parameters that \<open>load_neat_params\<close> reads, and what
  the constructor of \<open>PyOrganism\<close> (not part of the sources at hand) puts into a new brain
  beside its organism. \<open>NEAT::pop_size\<close>, which they also set, is read nowhere in the file
  and is left out.
\<close>

definition RTNEAT_ctor ::
  "bool \<Rightarrow> 'p genome_engine \<Rightarrow> 'p world \<Rightarrow> nat \<Rightarrow> 'p rtneat \<Rightarrow> error + 'p rtneat"
where
  "RTNEAT_ctor en eng w population_size raw =
     (let os = organisms eng w;
          n = length os
      in AssertMsg en True ''initial population creation failed''
           (AssertMsg en (n = population_size)
              (''population has '' @ decimal n @ '' organisms instead of ''
                 @ decimal population_size)
              (Inr (raw\<lparr>mPopulation := snd w,
                        orgs := fst w,
                        brains := (\<lambda>b. if b < n then (brains raw b)\<lparr>mOrganism := os ! b\<rparr>
                                        else brains raw b),
                        mWaitingBrainList := [0..<n],
                        mBrainList := [],
                        mBrainBodyMap := [],
                        mOffspringCount := n,
                        time_alive_minimum := 1\<rparr>))))"

subsection \<open>The binding table\<close>

text \<open>\<open>RTNEAT::ready\<close>: is a brain waiting?\<close>

definition ready :: "'p rtneat \<Rightarrow> bool" where
  "ready st = (mWaitingBrainList st \<noteq> [])"

text \<open>\<open>RTNEAT::have_organism\<close>: is the agent's body bound?\<close>

definition have_organism :: "'p rtneat \<Rightarrow> nat \<Rightarrow> bool" where
  "have_organism st body = (left_find (mBrainBodyMap st) body \<noteq> None)"

text \<open>
  \<open>RTNEAT::get_organism\<close>. For an unbound body the code takes \<open>front()\<close> of the queue
  and pops it with no test; on an empty \<open>std::queue\<close> that is undefined behaviour.
\<close>

definition get_organism :: "'p rtneat \<Rightarrow> nat \<Rightarrow> error + (nat \<times> 'p rtneat)" where
  "get_organism st body =
     (case left_find (mBrainBodyMap st) body of
        Some brain \<Rightarrow> Inr (brain, st)
      | None \<Rightarrow>
          (case mWaitingBrainList st of
             [] \<Rightarrow> Inl (UndefinedBehaviour ''front() of an empty queue'')
           | brain # rest \<Rightarrow>
               Inr (brain, st\<lparr>mWaitingBrainList := rest,
                               mBrainBodyMap := bbm_insert (body, brain) (mBrainBodyMap st)\<rparr>)))"

text \<open>
  \<open>RTNEAT::release_organism\<close>: the assertion, then one push. With assertions compiled
  out and the body unbound, \<open>found->second\<close> reads through the end iterator.
\<close>

definition release_organism :: "bool \<Rightarrow> 'p rtneat \<Rightarrow> nat \<Rightarrow> error + 'p rtneat" where
  "release_organism en st body =
     (let found = left_find (mBrainBodyMap st) body in
      AssertMsg en (found \<noteq> None) ''found != mBrainBodyMap.left.end()''
        (case found of
           None \<Rightarrow> Inl (UndefinedBehaviour ''dereference of left.end()'')
         | Some brain \<Rightarrow> Inr (st\<lparr>mWaitingBrainList := mWaitingBrainList st @ [brain]\<rparr>)))"

text \<open>\<open>RTNEAT::deleteUnit\<close>: push, erase from the right view, count.\<close>

definition deleteUnit :: "nat \<Rightarrow> 'p rtneat \<Rightarrow> 'p rtneat" where
  "deleteUnit brain st =
     st\<lparr>mWaitingBrainList := mWaitingBrainList st @ [brain],
        mBrainBodyMap := right_erase brain (mBrainBodyMap st),
        mTotalUnitsDeleted := mTotalUnitsDeleted st + 1\<rparr>"

subsection \<open>Fitness evaluation\<close>

definition FLT_MAX :: real where
  "FLT_MAX = 340282346638528859811704183484516925440"

text \<open>
  The first loop of \<open>RTNEAT::evaluateAll\<close> (lines 211 to 221). \<open>%\<close> is the truncating
  remainder of C++, undefined for a zero divisor. The increment of line 216 is the
  addition of 32-bit words: from the greatest value it wraps around to the least, after
  which the organism no longer passes the tests of lines 231, 243 and 263.
\<close>

fun stats_loop ::
  "bool \<Rightarrow> 32 word \<Rightarrow> (nat \<Rightarrow> pyorganism) \<Rightarrow> nat list \<Rightarrow> (nat \<Rightarrow> organism) \<Rightarrow> error + (nat \<Rightarrow> organism)"
where
  "stats_loop en tam bs [] os = Inr os"
| "stats_loop en tam bs (b # rest) os =
     (let org = mOrganism (bs b) in
      if sint (time_alive (os org)) \<ge> sint tam then
        (if tam = 0 then Inl (UndefinedBehaviour ''remainder by zero'')
         else if sint (time_alive (os org)) smod sint tam = 0
                 \<and> sint (time_alive (os org)) > 0 then
           (let os1 = os(org := (os org)\<lparr>time_alive := time_alive (os org) + 1\<rparr>) in
            AssertMsg en False ''FIXME/TODO: start next trial to normalize by time_alive_minimum''
              (AssertMsg en False ''FIXME/TODO: add stats samples''
                 (stats_loop en tam bs rest os1)))
         else
           AssertMsg en False ''FIXME/TODO: add stats samples''
             (stats_loop en tam bs rest os))
      else stats_loop en tam bs rest os)"

text \<open>
  The second loop (lines 230 to 239): the least score, starting from 0, and the greatest,
  starting from \<open>-FLT_MAX\<close>, over the brains whose organism is old enough.
\<close>

fun score_loop ::
  "bool \<Rightarrow> 32 word \<Rightarrow> (nat \<Rightarrow> pyorganism) \<Rightarrow> (nat \<Rightarrow> organism) \<Rightarrow> nat list \<Rightarrow> real \<times> real \<Rightarrow> error + (real \<times> real)"
where
  "score_loop en tam bs os [] acc = Inr acc"
| "score_loop en tam bs os (b # rest) (minAbsoluteScore, maxAbsoluteScore) =
     (if sint (time_alive (os (mOrganism (bs b)))) \<ge> sint tam then
        AssertMsg en False ''FIXME/TODO: calculate mAbsoluteScore''
          (score_loop en tam bs os rest
             (if mAbsoluteScore (bs b) < minAbsoluteScore then mAbsoluteScore (bs b)
              else minAbsoluteScore,
              if mAbsoluteScore (bs b) > maxAbsoluteScore then mAbsoluteScore (bs b)
              else maxAbsoluteScore))
      else score_loop en tam bs os rest (minAbsoluteScore, maxAbsoluteScore))"

text \<open>The loop of the branch \<open>minAbsoluteScore < 0\<close> (lines 242 to 258).\<close>

fun shift_loop ::
  "32 word \<Rightarrow> (nat \<Rightarrow> pyorganism) \<Rightarrow> real \<Rightarrow> nat list \<Rightarrow> (nat \<Rightarrow> organism) \<Rightarrow> (nat \<Rightarrow> organism)"
where
  "shift_loop tam bs minAbsoluteScore [] os = os"
| "shift_loop tam bs minAbsoluteScore (b # rest) os =
     (let org = mOrganism (bs b) in
      if sint (time_alive (os org)) \<ge> sint tam then
        (let modifiedFitness0 = mAbsoluteScore (bs b) - minAbsoluteScore;
             modifiedFitness = (if modifiedFitness0 < 0 then 0 else modifiedFitness0)
         in shift_loop tam bs minAbsoluteScore rest
              (os(org := (os org)\<lparr>fitness :=
                 (if \<not> smited (os org) then modifiedFitness else 0.01 * modifiedFitness)\<rparr>)))
      else shift_loop tam bs minAbsoluteScore rest os)"

text \<open>The loop of the other branch (lines 262 to 272).\<close>

fun copy_loop ::
  "32 word \<Rightarrow> (nat \<Rightarrow> pyorganism) \<Rightarrow> nat list \<Rightarrow> (nat \<Rightarrow> organism) \<Rightarrow> (nat \<Rightarrow> organism)"
where
  "copy_loop tam bs [] os = os"
| "copy_loop tam bs (b # rest) os =
     (let org = mOrganism (bs b) in
      if sint (time_alive (os org)) \<ge> sint tam then
        copy_loop tam bs rest
          (os(org := (os org)\<lparr>fitness :=
             (if \<not> smited (os org) then mAbsoluteScore (bs b)
              else 0.01 * mAbsoluteScore (bs b))\<rparr>))
      else copy_loop tam bs rest os)"

text \<open>\<open>RTNEAT::evaluateAll\<close>. The greatest score is computed and never used.\<close>

definition evaluateAll :: "bool \<Rightarrow> 'p rtneat \<Rightarrow> error + 'p rtneat" where
  "evaluateAll en st =
     (let tam = time_alive_minimum st; bs = brains st in
      case stats_loop en tam bs (mBrainList st) (orgs st) of
        Inl e \<Rightarrow> Inl e
      | Inr os1 \<Rightarrow>
          AssertMsg en False ''FIXME/TODO: mScoreHelper->doCalculations()''
            (case score_loop en tam bs os1 (mBrainList st) (0, - FLT_MAX) of
               Inl e \<Rightarrow> Inl e
             | Inr (minAbsoluteScore, maxAbsoluteScore) \<Rightarrow>
                 Inr (st\<lparr>orgs :=
                   (if minAbsoluteScore < 0
                    then shift_loop tam bs minAbsoluteScore (mBrainList st) os1
                    else copy_loop tam bs (mBrainList st) os1)\<rparr>)))"

subsection \<open>Steady-state evolution\<close>

text \<open>Lines 283 to 285 of \<open>RTNEAT::evolveAll\<close>.\<close>

definition compat_adjust_frequency :: "'p rtneat \<Rightarrow> nat" where
  "compat_adjust_frequency st =
     (let f = length (mBrainList st) div 10 in if f < 1 then 1 else f)"

text \<open>
  Lines 351 to 361: the new value of \<open>NEAT::compat_threshold\<close> for a number of species.
  The target is the local \<open>num_species_target\<close> of line 282.
\<close>

definition adjust_compat_threshold :: "nat \<Rightarrow> real \<Rightarrow> real" where
  "adjust_compat_threshold n ct =
     (let num_species_target = 4;
          compat_mod = 0.1;
          ct1 = (if n < num_species_target then ct - compat_mod
                 else if n > num_species_target then ct + compat_mod
                 else ct)
      in if ct1 < 0.3 then 0.3 else ct1)"

text \<open>Lines 349 to 369 without the test: adjust, then reassign every organism.\<close>

definition retune :: "'p genome_engine \<Rightarrow> 'p rtneat \<Rightarrow> 'p rtneat" where
  "retune eng st =
     (let ct = adjust_compat_threshold (num_species eng (world st)) (compat_threshold st);
          w = fold (reassign_species eng ct) (organisms eng (world st)) (world st)
      in (set_world w st)\<lparr>compat_threshold := ct\<rparr>)"

text \<open>
  Lines 375 to 383: the first brain of \<open>mBrainList\<close> that holds the removed organism gets
  the new one and goes back to the queue.
\<close>

fun hot_swap :: "bool \<Rightarrow> nat \<Rightarrow> nat \<Rightarrow> nat list \<Rightarrow> 'p rtneat \<Rightarrow> error + 'p rtneat" where
  "hot_swap en deadorg new_org [] st = Inr st"
| "hot_swap en deadorg new_org (b # rest) st =
     (if mOrganism (brains st b) = deadorg then
        (let st1 = st\<lparr>brains := (brains st)(b := (brains st b)\<lparr>mOrganism := new_org\<rparr>)\<rparr> in
         AssertMsg en False (''FIXME/TODO: ('' @ ''*iter)->m_Stats.resetAll();'')
           (Inr (deleteUnit b st1)))
      else hot_swap en deadorg new_org rest st)"

text \<open>\<open>RTNEAT::evolveAll\<close>; the logging of lines 298 to 332 has no effect on the state.\<close>

definition evolveAll :: "bool \<Rightarrow> 'p genome_engine \<Rightarrow> 'p rtneat \<Rightarrow> error + 'p rtneat" where
  "evolveAll en eng st =
     (let (deadorg, w1) = remove_worst eng (world st);
          freq = compat_adjust_frequency st
      in case deadorg of
           None \<Rightarrow> Inr (set_world w1 st)
         | Some d \<Rightarrow>
             (let w2 = fold (estimate_average eng) [0..<num_species eng w1] w1;
                  (new_org, w3) = reproduce_one eng (compat_threshold st) (mOffspringCount st) w2;
                  st1 = (set_world w3 st)\<lparr>mOffspringCount := mOffspringCount st + 1\<rparr>;
                  st2 = (if mOffspringCount st1 mod freq = 0 then retune eng st1 else st1)
              in hot_swap en d new_org (mBrainList st2) st2))"

subsection \<open>The tick\<close>

text \<open>
  The loop of lines 175 to 186 over the bindings, with the simulation's \<open>Find\<close> as a
  parameter. The iterator moves on before \<open>deleteUnit\<close> erases the pair it stood on.
\<close>

fun scan_bodies :: "(nat \<Rightarrow> bool) \<Rightarrow> brain_body_map \<Rightarrow> 'p rtneat \<Rightarrow> 'p rtneat" where
  "scan_bodies found [] st = st"
| "scan_bodies found ((body, brain) # rest) st =
     scan_bodies found rest (if \<not> found body then deleteUnit brain st else st)"

text \<open>Lines 169 to 186 of \<open>RTNEAT::ProcessTick\<close>: the two counters, then the scan.\<close>

definition tick_scan :: "(nat \<Rightarrow> bool) \<Rightarrow> 'p rtneat \<Rightarrow> 'p rtneat" where
  "tick_scan found st =
     (let st1 = st\<lparr>mSpawnTickCount := mSpawnTickCount st + 1,
                   mEvolutionTickCount := mEvolutionTickCount st + 1\<rparr>
      in scan_bodies found (mBrainBodyMap st1) st1)"

text \<open>\<open>RTNEAT::ProcessTick\<close>; the argument \<open>incAmt\<close> is not used.\<close>

definition ProcessTick ::
  "bool \<Rightarrow> 'p genome_engine \<Rightarrow> (nat \<Rightarrow> bool) \<Rightarrow> 'p rtneat \<Rightarrow> error + 'p rtneat"
where
  "ProcessTick en eng found st =
     (let st2 = tick_scan found st
      in case evaluateAll en st2 of
           Inl e \<Rightarrow> Inl e
         | Inr st3 \<Rightarrow>
             if mTotalUnitsDeleted st3 \<ge> mUnitsToDeleteBeforeFirstJudgment st3
                \<and> mEvolutionTickCount st3 \<ge> mTimeBetweenEvolutions st3
             then (case evolveAll en eng st3 of
                     Inl e \<Rightarrow> Inl e
                   | Inr st4 \<Rightarrow> Inr (st4\<lparr>mEvolutionTickCount := 0\<rparr>))
             else Inr st3)"

subsection \<open>The states a controller goes through\<close>

text \<open>
  A controller is built by a constructor and then used through \<open>get_organism\<close>,
  \<open>release_organism\<close> and \<open>ProcessTick\<close>. Between the calls the rest of the program may
  write the public fields of organisms and brains and the two globals of \<open>NEAT\<close>.
\<close>

inductive reachable :: "bool \<Rightarrow> 'p genome_engine \<Rightarrow> 'p rtneat \<Rightarrow> bool"
  for en :: bool and eng :: "'p genome_engine"
where
  constructed:
    "RTNEAT_ctor en eng w population_size raw = Inr st \<Longrightarrow> reachable en eng st"
| requested:
    "reachable en eng st \<Longrightarrow> get_organism st body = Inr (brain, st1) \<Longrightarrow> reachable en eng st1"
| released:
    "reachable en eng st \<Longrightarrow> release_organism en st body = Inr st1 \<Longrightarrow> reachable en eng st1"
| ticked:
    "reachable en eng st \<Longrightarrow> ProcessTick en eng found st = Inr st1 \<Longrightarrow> reachable en eng st1"
| written:
    "reachable en eng st \<Longrightarrow>
     reachable en eng (st\<lparr>orgs := os, brains := bs, time_alive_minimum := tam,
                           compat_threshold := ct\<rparr>)"

subsection \<open>Runs of evolution cycles\<close>

text \<open>\<open>n\<close> evolution cycles, one after the other, stopping at the first failure.\<close>

fun evolve_cycles :: "bool \<Rightarrow> 'p genome_engine \<Rightarrow> nat \<Rightarrow> 'p rtneat \<Rightarrow> error + 'p rtneat" where
  "evolve_cycles en eng 0 st = Inr st"
| "evolve_cycles en eng (Suc n) st =
     (case evolveAll en eng st of
        Inl e \<Rightarrow> Inl e
      | Inr st1 \<Rightarrow> evolve_cycles en eng n st1)"

section \<open>Notions of the specification\<close>

text \<open>The organism a brain wraps, and the brains whose organism is old enough.\<close>

definition organism_of :: "'p rtneat \<Rightarrow> nat \<Rightarrow> nat" where
  "organism_of st b = mOrganism (brains st b)"

definition eligible :: "'p rtneat \<Rightarrow> nat \<Rightarrow> bool" where
  "eligible st b =
     (sint (time_alive_minimum st) \<le> sint (time_alive (orgs st (organism_of st b))))"

text \<open>The bindings whose body the simulation no longer finds.\<close>

definition dead_bindings :: "(nat \<Rightarrow> bool) \<Rightarrow> 'p rtneat \<Rightarrow> brain_body_map" where
  "dead_bindings found st = filter (\<lambda>p. \<not> found (fst p)) (mBrainBodyMap st)"

text \<open>The activation test of the tick, on the state before the tick.\<close>

definition evolution_due :: "(nat \<Rightarrow> bool) \<Rightarrow> 'p rtneat \<Rightarrow> bool" where
  "evolution_due found st =
     (mUnitsToDeleteBeforeFirstJudgment st
        \<le> mTotalUnitsDeleted st + length (dead_bindings found st)
      \<and> mTimeBetweenEvolutions st \<le> mEvolutionTickCount st + 1)"

text \<open>
  The specification's invariant of the binding table for a set \<open>B\<close> of brains: no brain
  waits twice, no body or brain is bound twice, no brain both waits and is bound, and the
  waiting and the bound brains together are \<open>B\<close>.
\<close>

definition binding_invariant :: "nat set \<Rightarrow> 'p rtneat \<Rightarrow> bool" where
  "binding_invariant B st =
     (distinct (mWaitingBrainList st) \<and>
      distinct (map fst (mBrainBodyMap st)) \<and>
      distinct (map snd (mBrainBodyMap st)) \<and>
      set (mWaitingBrainList st) \<inter> set (map snd (mBrainBodyMap st)) = {} \<and>
      set (mWaitingBrainList st) \<union> set (map snd (mBrainBodyMap st)) = B)"

text \<open>
  The engine's world after the removal, the species averages and the reproduction of one
  evolution cycle, which is the world the re-tuning starts from.
\<close>

definition world_after_reproduction :: "'p genome_engine \<Rightarrow> 'p rtneat \<Rightarrow> 'p world" where
  "world_after_reproduction eng st =
     (let w1 = snd (remove_worst eng (world st));
          w2 = fold (estimate_average eng) [0..<num_species eng w1] w1
      in snd (reproduce_one eng (compat_threshold st) (mOffspringCount st) w2))"

section \<open>Example states and engines\<close>

text \<open>A controller with no brain listed, one organism age, and the thresholds 5 and 10.\<close>

definition st_idle :: "unit rtneat" where
  "st_idle =
     \<lparr>mPopulation = (),
      orgs = (\<lambda>org. \<lparr>fitness = 0, time_alive = 1, smited = False\<rparr>),
      brains = (\<lambda>b. \<lparr>mOrganism = b, mAbsoluteScore = 0\<rparr>),
      mWaitingBrainList = [], mBrainList = [], mBrainBodyMap = [],
      mOffspringCount = 0, mSpawnTickCount = 0, mEvolutionTickCount = 0,
      mTotalUnitsDeleted = 0, mUnitsToDeleteBeforeFirstJudgment = 5,
      mTimeBetweenEvolutions = 10, time_alive_minimum = 1, compat_threshold = 3\<rparr>"

text \<open>Body 1 holds brain 7; brain 8 waits.\<close>

definition st_bound :: "unit rtneat" where
  "st_bound = st_idle\<lparr>mWaitingBrainList := [8], mBrainBodyMap := [(1, 7)]\<rparr>"

text \<open>
  The scheduling scenario of the specification: thresholds 5 and 10, four deletions and
  twelve ticks so far, body 1 bound to brain 7.
\<close>

definition st_scenario :: "unit rtneat" where
  "st_scenario = st_bound\<lparr>mTotalUnitsDeleted := 4, mEvolutionTickCount := 12\<rparr>"

text \<open>Two answers of the simulation's \<open>Find\<close>: every body is gone, every body is there.\<close>

definition nobody_found :: "nat \<Rightarrow> bool" where
  "nobody_found body = False"

definition everybody_found :: "nat \<Rightarrow> bool" where
  "everybody_found body = True"

text \<open>An engine with nothing to remove: \<open>remove_worst\<close> returns null.\<close>

definition idle_engine :: "unit genome_engine" where
  "idle_engine =
     \<lparr>remove_worst = (\<lambda>w. (None, w)),
      num_species = (\<lambda>w. 1),
      estimate_average = (\<lambda>s w. w),
      reproduce_one = (\<lambda>ct n w. (n, w)),
      organisms = (\<lambda>w. []),
      reassign_species = (\<lambda>ct org w. w)\<rparr>"

text \<open>
  An engine over a counter of \<open>reassign_species\<close> calls, with a population of 47
  organisms at the addresses 0 to 46 and three species: it removes organism 0 and numbers
  the offspring by the offspring counter.
\<close>

definition counting_engine :: "nat genome_engine" where
  "counting_engine =
     \<lparr>remove_worst = (\<lambda>w. (Some 0, w)),
      num_species = (\<lambda>w. 3),
      estimate_average = (\<lambda>s w. w),
      reproduce_one = (\<lambda>ct n w. (n, w)),
      organisms = (\<lambda>w. [0..<47]),
      reassign_species = (\<lambda>ct org w. (fst w, snd w + 1))\<rparr>"

text \<open>
  The world of that population when the controller is built: every organism has been
  alive for one tick and has fitness 2; organism 0 is smited.
\<close>

definition world_47 :: "nat world" where
  "world_47 = ((\<lambda>org. \<lparr>fitness = 2, time_alive = 1, smited = (org = 0)\<rparr>), 0)"

text \<open>
  What the constructor does not set: the counters at 0, the thresholds 5 and 10, a
  compatibility threshold of 3, and the score 0 in every new brain.
\<close>

definition raw_47 :: "nat rtneat" where
  "raw_47 =
     \<lparr>mPopulation = 0,
      orgs = (\<lambda>org. \<lparr>fitness = 0, time_alive = 0, smited = False\<rparr>),
      brains = (\<lambda>b. \<lparr>mOrganism = 0, mAbsoluteScore = 0\<rparr>),
      mWaitingBrainList = [], mBrainList = [], mBrainBodyMap = [],
      mOffspringCount = 0, mSpawnTickCount = 0, mEvolutionTickCount = 0,
      mTotalUnitsDeleted = 0, mUnitsToDeleteBeforeFirstJudgment = 5,
      mTimeBetweenEvolutions = 10, time_alive_minimum = 0, compat_threshold = 3\<rparr>"

text \<open>
  A controller as its constructor leaves it for a population of 47: the 47 brains wait,
  none is listed, and the offspring counter starts at the population size.
\<close>

definition st_47 :: "nat rtneat" where
  "st_47 = projr (RTNEAT_ctor True counting_engine world_47 47 raw_47)"

text \<open>
  Two engines with a population of one organism, at address 0, and three species. The
  first removes organism 0 and writes the offspring at the address the offspring counter
  gives; the second removes nothing.
\<close>

definition single_engine :: "unit genome_engine" where
  "single_engine =
     \<lparr>remove_worst = (\<lambda>w. (Some 0, w)),
      num_species = (\<lambda>w. 3),
      estimate_average = (\<lambda>s w. w),
      reproduce_one =
        (\<lambda>ct n w. (n, ((fst w)(n := \<lparr>fitness = 0, time_alive = 0, smited = False\<rparr>), snd w))),
      organisms = (\<lambda>w. [0]),
      reassign_species = (\<lambda>ct org w. w)\<rparr>"

definition calm_engine :: "unit genome_engine" where
  "calm_engine = single_engine\<lparr>remove_worst := (\<lambda>w. (None, w))\<rparr>"

text \<open>
  The scheduling scenario of the specification on a controller built for that population:
  thresholds 5 and 10, four deletions and twelve ticks so far in the members that the
  constructor does not set.
\<close>

definition raw_single :: "unit rtneat" where
  "raw_single = st_idle\<lparr>mTotalUnitsDeleted := 4, mEvolutionTickCount := 12\<rparr>"

definition st_single :: "unit rtneat" where
  "st_single = projr (RTNEAT_ctor True single_engine (orgs st_idle, ()) 1 raw_single)"

text \<open>The same controller after body 1 has requested the one brain.\<close>

definition st_play :: "unit rtneat" where
  "st_play = st_single\<lparr>mWaitingBrainList := [], mBrainBodyMap := [(1, 0)]\<rparr>"

section \<open>Lemmas about the fitness pass\<close>

lemma stats_loop_False:
  "tam \<noteq> 0 \<Longrightarrow> \<exists>os1. stats_loop False tam bs xs os = Inr os1"
  by (induction xs arbitrary: os) (auto simp: Let_def AssertMsg_def)

lemma score_loop_False: "\<exists>r. score_loop False tam bs os xs acc = Inr r"
proof (induction xs arbitrary: acc)
  case Nil
  then show ?case by simp
next
  case (Cons b rest)
  obtain mn mx where acc: "acc = (mn, mx)" by (cases acc)
  show ?case
    unfolding acc using Cons.IH by (simp add: AssertMsg_def)
qed

lemma evaluateAll_False:
  assumes "time_alive_minimum st \<noteq> 0"
  shows "\<exists>os'. evaluateAll False st = Inr (st\<lparr>orgs := os'\<rparr>)"
proof -
  from stats_loop_False[OF assms] obtain os1 where
    s1: "stats_loop False (time_alive_minimum st) (brains st) (mBrainList st) (orgs st) = Inr os1"
    by blast
  from score_loop_False obtain r where
    s2: "score_loop False (time_alive_minimum st) (brains st) os1 (mBrainList st) (0, - FLT_MAX)
           = Inr r"
    by blast
  obtain mn mx where r: "r = (mn, mx)" by (cases r)
  have "evaluateAll False st =
      Inr (st\<lparr>orgs :=
        (if mn < 0
         then shift_loop (time_alive_minimum st) (brains st) mn (mBrainList st) os1
         else copy_loop (time_alive_minimum st) (brains st) (mBrainList st) os1)\<rparr>)"
    using s1 s2 r by (simp add: evaluateAll_def AssertMsg_def Let_def)
  then show ?thesis by blast
qed

lemma evaluateAll_only_orgs:
  "evaluateAll en st = Inr st' \<Longrightarrow> \<exists>os'. st' = st\<lparr>orgs := os'\<rparr>"
  by (auto simp: evaluateAll_def Let_def AssertMsg_def split: sum.splits if_splits prod.splits)

text \<open>With no brain listed the pass writes nothing, and with assertions it stops at line 224.\<close>

lemma evaluateAll_unlisted_False:
  "mBrainList st = [] \<Longrightarrow> evaluateAll False st = Inr st"
  by (simp add: evaluateAll_def AssertMsg_def Let_def FLT_MAX_def)

lemma evaluateAll_unlisted_True:
  "mBrainList st = [] \<Longrightarrow>
   evaluateAll True st = Inl (AssertionFailed ''FIXME/TODO: mScoreHelper->doCalculations()'')"
  by (simp add: evaluateAll_def AssertMsg_def Let_def)

section \<open>Lemmas about the tick and the evolution cycle\<close>

lemma deleteUnit_frame:
  "orgs (deleteUnit b st) = orgs st" "brains (deleteUnit b st) = brains st"
  "mBrainList (deleteUnit b st) = mBrainList st" "mPopulation (deleteUnit b st) = mPopulation st"
  "time_alive_minimum (deleteUnit b st) = time_alive_minimum st"
  "compat_threshold (deleteUnit b st) = compat_threshold st"
  "mOffspringCount (deleteUnit b st) = mOffspringCount st"
  "mSpawnTickCount (deleteUnit b st) = mSpawnTickCount st"
  "mEvolutionTickCount (deleteUnit b st) = mEvolutionTickCount st"
  "mUnitsToDeleteBeforeFirstJudgment (deleteUnit b st) = mUnitsToDeleteBeforeFirstJudgment st"
  "mTimeBetweenEvolutions (deleteUnit b st) = mTimeBetweenEvolutions st"
  "mTotalUnitsDeleted (deleteUnit b st) = mTotalUnitsDeleted st + 1"
  by (simp_all add: deleteUnit_def)

lemma scan_bodies_frame:
  "orgs (scan_bodies found m st) = orgs st \<and> brains (scan_bodies found m st) = brains st \<and>
   mBrainList (scan_bodies found m st) = mBrainList st \<and>
   mPopulation (scan_bodies found m st) = mPopulation st \<and>
   time_alive_minimum (scan_bodies found m st) = time_alive_minimum st \<and>
   compat_threshold (scan_bodies found m st) = compat_threshold st \<and>
   mOffspringCount (scan_bodies found m st) = mOffspringCount st \<and>
   mSpawnTickCount (scan_bodies found m st) = mSpawnTickCount st \<and>
   mEvolutionTickCount (scan_bodies found m st) = mEvolutionTickCount st \<and>
   mUnitsToDeleteBeforeFirstJudgment (scan_bodies found m st) = mUnitsToDeleteBeforeFirstJudgment st \<and>
   mTimeBetweenEvolutions (scan_bodies found m st) = mTimeBetweenEvolutions st \<and>
   mTotalUnitsDeleted (scan_bodies found m st) =
     mTotalUnitsDeleted st + length (filter (\<lambda>p. \<not> found (fst p)) m)"
proof (induction m arbitrary: st)
  case Nil
  then show ?case by simp
next
  case (Cons p m)
  obtain body brain where p: "p = (body, brain)" by (cases p)
  show ?case
    unfolding p scan_bodies.simps
    by (simp add: Cons.IH deleteUnit_frame)
qed

lemma tick_scan_frame:
  "orgs (tick_scan found st) = orgs st" "brains (tick_scan found st) = brains st"
  "mBrainList (tick_scan found st) = mBrainList st"
  "mPopulation (tick_scan found st) = mPopulation st"
  "time_alive_minimum (tick_scan found st) = time_alive_minimum st"
  "compat_threshold (tick_scan found st) = compat_threshold st"
  "mOffspringCount (tick_scan found st) = mOffspringCount st"
  "mSpawnTickCount (tick_scan found st) = mSpawnTickCount st + 1"
  "mEvolutionTickCount (tick_scan found st) = mEvolutionTickCount st + 1"
  "mUnitsToDeleteBeforeFirstJudgment (tick_scan found st) = mUnitsToDeleteBeforeFirstJudgment st"
  "mTimeBetweenEvolutions (tick_scan found st) = mTimeBetweenEvolutions st"
  "mTotalUnitsDeleted (tick_scan found st) =
     mTotalUnitsDeleted st + length (dead_bindings found st)"
  by (simp_all add: tick_scan_def Let_def scan_bodies_frame dead_bindings_def)

lemma world_set_world [simp]: "world (set_world w st) = w"
  by (simp add: world_def set_world_def)

lemma world_offspring [simp]: "world (st\<lparr>mOffspringCount := c\<rparr>) = world st"
  by (simp add: world_def)

lemma set_world_frame:
  "brains (set_world w st) = brains st" "mBrainList (set_world w st) = mBrainList st"
  "mWaitingBrainList (set_world w st) = mWaitingBrainList st"
  "mBrainBodyMap (set_world w st) = mBrainBodyMap st"
  "time_alive_minimum (set_world w st) = time_alive_minimum st"
  "compat_threshold (set_world w st) = compat_threshold st"
  "mOffspringCount (set_world w st) = mOffspringCount st"
  "mSpawnTickCount (set_world w st) = mSpawnTickCount st"
  "mEvolutionTickCount (set_world w st) = mEvolutionTickCount st"
  "mTotalUnitsDeleted (set_world w st) = mTotalUnitsDeleted st"
  "mUnitsToDeleteBeforeFirstJudgment (set_world w st) = mUnitsToDeleteBeforeFirstJudgment st"
  "mTimeBetweenEvolutions (set_world w st) = mTimeBetweenEvolutions st"
  by (simp_all add: set_world_def)

lemma hot_swap_False:
  "\<exists>st'. hot_swap False d n xs st = Inr st' \<and>
     world st' = world st \<and> compat_threshold st' = compat_threshold st \<and>
     mOffspringCount st' = mOffspringCount st \<and> mBrainList st' = mBrainList st \<and>
     time_alive_minimum st' = time_alive_minimum st \<and>
     mEvolutionTickCount st' = mEvolutionTickCount st \<and>
     mSpawnTickCount st' = mSpawnTickCount st \<and>
     mUnitsToDeleteBeforeFirstJudgment st' = mUnitsToDeleteBeforeFirstJudgment st \<and>
     mTimeBetweenEvolutions st' = mTimeBetweenEvolutions st"
  by (induction xs) (auto simp: AssertMsg_def Let_def deleteUnit_def world_def)

lemma retune_frame:
  "compat_threshold (retune eng st) =
     adjust_compat_threshold (num_species eng (world st)) (compat_threshold st)"
  "world (retune eng st) =
     fold (reassign_species eng (compat_threshold (retune eng st))) (organisms eng (world st)) (world st)"
  "mOffspringCount (retune eng st) = mOffspringCount st"
  "mBrainList (retune eng st) = mBrainList st"
  "brains (retune eng st) = brains st"
  by (simp_all add: retune_def Let_def set_world_frame world_def set_world_def)

lemma evolveAll_None:
  assumes "fst (remove_worst eng (world st)) = None"
  shows "evolveAll en eng st = Inr (set_world (snd (remove_worst eng (world st))) st)"
  using assms by (cases "remove_worst eng (world st)") (simp add: evolveAll_def Let_def)

lemma evolveAll_Some:
  assumes "fst (remove_worst eng (world st)) = Some d"
  shows "\<exists>st'. evolveAll False eng st = Inr st' \<and>
     mOffspringCount st' = mOffspringCount st + 1 \<and>
     compat_threshold st' =
       (if (mOffspringCount st + 1) mod compat_adjust_frequency st = 0
        then adjust_compat_threshold (num_species eng (world_after_reproduction eng st))
               (compat_threshold st)
        else compat_threshold st) \<and>
     world st' =
       (if (mOffspringCount st + 1) mod compat_adjust_frequency st = 0
        then fold (reassign_species eng (compat_threshold st'))
               (organisms eng (world_after_reproduction eng st))
               (world_after_reproduction eng st)
        else world_after_reproduction eng st)"
proof -
  obtain w1 where rw: "remove_worst eng (world st) = (Some d, w1)"
    using assms by (cases "remove_worst eng (world st)") auto
  let ?w2 = "fold (estimate_average eng) [0..<num_species eng w1] w1"
  obtain new_org w3 where rp:
    "reproduce_one eng (compat_threshold st) (mOffspringCount st) ?w2 = (new_org, w3)"
    by (cases "reproduce_one eng (compat_threshold st) (mOffspringCount st) ?w2")
  have w3: "world_after_reproduction eng st = w3"
    by (simp add: world_after_reproduction_def rw rp Let_def)
  define st1 where "st1 = (set_world w3 st)\<lparr>mOffspringCount := mOffspringCount st + 1\<rparr>"
  define st2 where "st2 =
    (if mOffspringCount st1 mod compat_adjust_frequency st = 0 then retune eng st1 else st1)"
  have ev: "evolveAll False eng st = hot_swap False d new_org (mBrainList st2) st2"
    by (simp add: evolveAll_def rw rp Let_def st1_def st2_def)
  have c1: "mOffspringCount st1 = mOffspringCount st + 1"
    "compat_threshold st1 = compat_threshold st" "world st1 = w3"
    by (simp_all add: st1_def set_world_frame)
  have oc: "mOffspringCount st2 = mOffspringCount st + 1"
    by (simp add: st2_def c1 retune_frame)
  have ct: "compat_threshold st2 =
       (if (mOffspringCount st + 1) mod compat_adjust_frequency st = 0
        then adjust_compat_threshold (num_species eng w3) (compat_threshold st)
        else compat_threshold st)"
    by (simp add: st2_def c1 retune_frame)
  have w: "world st2 =
       (if (mOffspringCount st + 1) mod compat_adjust_frequency st = 0
        then fold (reassign_species eng (compat_threshold st2)) (organisms eng w3) w3
        else w3)"
  proof (cases "(mOffspringCount st + 1) mod compat_adjust_frequency st = 0")
    case True
    then have "st2 = retune eng st1" by (simp add: st2_def c1)
    then show ?thesis using True c1 by (simp add: retune_frame)
  next
    case False
    then have "st2 = st1" by (simp add: st2_def c1)
    then show ?thesis using False c1 by simp
  qed
  from hot_swap_False[of d new_org "mBrainList st2" st2] obtain st' where
    hs: "hot_swap False d new_org (mBrainList st2) st2 = Inr st'"
      "world st' = world st2" "compat_threshold st' = compat_threshold st2"
      "mOffspringCount st' = mOffspringCount st2" by blast
  have "evolveAll False eng st = Inr st'" using ev hs(1) by simp
  moreover have "mOffspringCount st' = mOffspringCount st + 1" using hs(4) oc by simp
  moreover have "compat_threshold st' =
       (if (mOffspringCount st + 1) mod compat_adjust_frequency st = 0
        then adjust_compat_threshold (num_species eng (world_after_reproduction eng st))
               (compat_threshold st)
        else compat_threshold st)"
    using hs(3) ct w3 by simp
  moreover have "world st' =
       (if (mOffspringCount st + 1) mod compat_adjust_frequency st = 0
        then fold (reassign_species eng (compat_threshold st'))
               (organisms eng (world_after_reproduction eng st))
               (world_after_reproduction eng st)
        else world_after_reproduction eng st)"
    using hs(2,3) w w3 by simp
  ultimately show ?thesis by blast
qed

lemma adjust_compat_threshold_floor: "0.3 \<le> adjust_compat_threshold n ct"
  by (simp add: adjust_compat_threshold_def Let_def)

lemma evolveAll_False_total:
  "\<exists>st'. evolveAll False eng st = Inr st' \<and>
     (0.3 \<le> compat_threshold st \<longrightarrow> 0.3 \<le> compat_threshold st')"
proof (cases "fst (remove_worst eng (world st))")
  case None
  from evolveAll_None[OF this, of False] show ?thesis by (simp add: set_world_frame)
next
  case (Some d)
  from evolveAll_Some[OF this] obtain st' where
    "evolveAll False eng st = Inr st'"
    "compat_threshold st' =
       (if (mOffspringCount st + 1) mod compat_adjust_frequency st = 0
        then adjust_compat_threshold (num_species eng (world_after_reproduction eng st))
               (compat_threshold st)
        else compat_threshold st)" by blast
  then show ?thesis using adjust_compat_threshold_floor by auto
qed

lemma activation_test:
  assumes "st3 = (tick_scan found st)\<lparr>orgs := os'\<rparr>"
  shows "(mUnitsToDeleteBeforeFirstJudgment st3 \<le> mTotalUnitsDeleted st3 \<and>
          mTimeBetweenEvolutions st3 \<le> mEvolutionTickCount st3) = evolution_due found st"
  by (simp add: assms evolution_due_def tick_scan_frame)

lemma fold_ignore: "fold (\<lambda>s w. w) xs w = w"
  by (induction xs) simp_all

section \<open>Lemmas about reachable states\<close>

lemma hot_swap_mBrainList:
  "hot_swap en d n xs st = Inr st' \<Longrightarrow> mBrainList st' = mBrainList st"
  by (induction xs) (auto simp: AssertMsg_def Let_def deleteUnit_def split: if_splits)

lemma evolveAll_mBrainList:
  assumes "evolveAll en eng st = Inr st'"
  shows "mBrainList st' = mBrainList st"
proof (cases "fst (remove_worst eng (world st))")
  case None
  from evolveAll_None[OF None, of en] assms show ?thesis by (auto simp: set_world_frame)
next
  case (Some d)
  then obtain w1 where rw: "remove_worst eng (world st) = (Some d, w1)"
    by (cases "remove_worst eng (world st)") auto
  let ?w2 = "fold (estimate_average eng) [0..<num_species eng w1] w1"
  obtain new_org w3 where rp:
    "reproduce_one eng (compat_threshold st) (mOffspringCount st) ?w2 = (new_org, w3)"
    by (cases "reproduce_one eng (compat_threshold st) (mOffspringCount st) ?w2")
  define st1 where "st1 = (set_world w3 st)\<lparr>mOffspringCount := mOffspringCount st + 1\<rparr>"
  define st2 where "st2 =
    (if mOffspringCount st1 mod compat_adjust_frequency st = 0 then retune eng st1 else st1)"
  have ev: "evolveAll en eng st = hot_swap en d new_org (mBrainList st2) st2"
    by (simp add: evolveAll_def rw rp Let_def st1_def st2_def)
  have "mBrainList st2 = mBrainList st"
    by (simp add: st2_def st1_def retune_frame set_world_frame)
  with hot_swap_mBrainList[of en d new_org "mBrainList st2" st2 st'] ev assms
  show ?thesis by simp
qed

lemma ProcessTick_mBrainList:
  assumes "ProcessTick en eng found st = Inr st'"
  shows "mBrainList st' = mBrainList st"
proof -
  from assms obtain st3 where ev: "evaluateAll en (tick_scan found st) = Inr st3"
    by (auto simp: ProcessTick_def Let_def split: sum.splits)
  from evaluateAll_only_orgs[OF ev] have l3: "mBrainList st3 = mBrainList st"
    by (auto simp: tick_scan_frame)
  from assms ev have "st' = st3 \<or> (\<exists>st4. evolveAll en eng st3 = Inr st4 \<and>
      st' = st4\<lparr>mEvolutionTickCount := 0\<rparr>)"
    by (auto simp: ProcessTick_def Let_def split: sum.splits if_splits)
  with l3 show ?thesis by (auto dest: evolveAll_mBrainList)
qed

lemma RTNEAT_ctor_mBrainList:
  "RTNEAT_ctor en eng w n raw = Inr st \<Longrightarrow> mBrainList st = []"
  by (auto simp: RTNEAT_ctor_def AssertMsg_def Let_def split: if_splits)

lemma reachable_unlisted:
  "reachable en eng st \<Longrightarrow> mBrainList st = []"
proof (induction rule: reachable.induct)
  case (constructed w population_size raw st)
  then show ?case by (rule RTNEAT_ctor_mBrainList)
next
  case (requested st body brain st1)
  then show ?case
    by (auto simp: get_organism_def split: option.splits list.splits)
next
  case (released st body st1)
  then show ?case
    by (auto simp: release_organism_def AssertMsg_def Let_def split: option.splits if_splits)
next
  case (ticked st found st1)
  then show ?case by (simp add: ProcessTick_mBrainList)
next
  case (written st os bs tam ct)
  then show ?case by simp
qed

text \<open>So on a reachable state the fitness pass changes nothing.\<close>

lemma reachable_pass_writes_nothing:
  "reachable False eng st \<Longrightarrow> evaluateAll False st = Inr st"
  by (simp add: reachable_unlisted evaluateAll_unlisted_False)

lemma compat_adjust_frequency_unlisted:
  "mBrainList st = [] \<Longrightarrow> compat_adjust_frequency st = 1"
  by (simp add: compat_adjust_frequency_def)

section \<open>Lemmas about the example states\<close>

lemma st_47_constructed: "RTNEAT_ctor en counting_engine world_47 47 raw_47 = Inr st_47"
  by (simp add: st_47_def RTNEAT_ctor_def counting_engine_def AssertMsg_def Let_def)

lemma st_47_fields:
  "mBrainList st_47 = []" "mOffspringCount st_47 = 47" "time_alive_minimum st_47 = 1"
  "mWaitingBrainList st_47 = [0..<47]" "mBrainBodyMap st_47 = []"
  "orgs st_47 = fst world_47" "mPopulation st_47 = 0"
  "compat_threshold st_47 = 3"
  by (simp_all add: st_47_def RTNEAT_ctor_def counting_engine_def AssertMsg_def Let_def
      raw_47_def world_47_def)

lemma st_47_brains:
  "b < 47 \<Longrightarrow> brains st_47 b = \<lparr>mOrganism = b, mAbsoluteScore = 0\<rparr>"
  by (simp add: st_47_def RTNEAT_ctor_def counting_engine_def AssertMsg_def Let_def raw_47_def)

lemma st_single_constructed:
  "RTNEAT_ctor en single_engine (orgs st_idle, ()) 1 raw_single = Inr st_single"
  "RTNEAT_ctor en calm_engine (orgs st_idle, ()) 1 raw_single = Inr st_single"
  by (simp_all add: st_single_def RTNEAT_ctor_def single_engine_def calm_engine_def
      AssertMsg_def Let_def)

lemma st_single_request: "get_organism st_single 1 = Inr (0, st_play)"
  by (simp add: st_play_def st_single_def RTNEAT_ctor_def single_engine_def AssertMsg_def
      Let_def get_organism_def left_find_def bbm_insert_def raw_single_def st_idle_def)

lemma st_play_reachable:
  "reachable en single_engine st_play" "reachable en calm_engine st_play"
  using reachable.requested[OF reachable.constructed[OF st_single_constructed(1)] st_single_request]
    reachable.requested[OF reachable.constructed[OF st_single_constructed(2)] st_single_request]
  by simp_all

lemma st_play_fields:
  "mBrainList st_play = []" "mOffspringCount st_play = 1" "time_alive_minimum st_play = 1"
  "mWaitingBrainList st_play = []" "mBrainBodyMap st_play = [(1, 0)]"
  "mTotalUnitsDeleted st_play = 4" "mEvolutionTickCount st_play = 12"
  "mUnitsToDeleteBeforeFirstJudgment st_play = 5" "mTimeBetweenEvolutions st_play = 10"
  "compat_threshold st_play = 3" "mSpawnTickCount st_play = 0"
  by (simp_all add: st_play_def st_single_def RTNEAT_ctor_def single_engine_def AssertMsg_def
      Let_def raw_single_def st_idle_def)

lemma ProcessTick_unlisted_True:
  assumes "mBrainList st = []"
  shows "ProcessTick True eng found st =
     Inl (AssertionFailed ''FIXME/TODO: mScoreHelper->doCalculations()'')"
proof -
  from assms have "mBrainList (tick_scan found st) = []" by (simp add: tick_scan_frame)
  from evaluateAll_unlisted_True[OF this] show ?thesis
    by (simp add: ProcessTick_def Let_def)
qed

lemma fold_count:
  "fold (\<lambda>org w. (fst w, Suc (snd w))) xs (w :: 'a \<times> nat) = (fst w, snd w + length xs)"
  by (induction xs arbitrary: w) simp_all

lemma counting_engine_world:
  "world_after_reproduction counting_engine st = world st"
  by (simp add: world_after_reproduction_def counting_engine_def Let_def fold_ignore)

lemma counting_engine_cycle:
  assumes "mBrainList st = []"
  shows "\<exists>st'. evolveAll False counting_engine st = Inr st' \<and> mBrainList st' = [] \<and>
     mOffspringCount st' = mOffspringCount st + 1 \<and>
     compat_threshold st' = adjust_compat_threshold 3 (compat_threshold st) \<and>
     mPopulation st' = mPopulation st + 47"
proof -
  have r: "fst (remove_worst counting_engine (world st)) = Some 0"
    by (simp add: counting_engine_def)
  have f: "compat_adjust_frequency st = 1"
    by (rule compat_adjust_frequency_unlisted[OF assms])
  from evolveAll_Some[OF r] obtain st' where
    ev: "evolveAll False counting_engine st = Inr st'" and
    oc: "mOffspringCount st' = mOffspringCount st + 1" and
    ct: "compat_threshold st' =
       (if (mOffspringCount st + 1) mod compat_adjust_frequency st = 0
        then adjust_compat_threshold
               (num_species counting_engine (world_after_reproduction counting_engine st))
               (compat_threshold st)
        else compat_threshold st)" and
    w: "world st' =
       (if (mOffspringCount st + 1) mod compat_adjust_frequency st = 0
        then fold (reassign_species counting_engine (compat_threshold st'))
               (organisms counting_engine (world_after_reproduction counting_engine st))
               (world_after_reproduction counting_engine st)
        else world_after_reproduction counting_engine st)" by blast
  have n: "num_species counting_engine w0 = 3" for w0 by (simp add: counting_engine_def)
  have c: "compat_threshold st' = adjust_compat_threshold 3 (compat_threshold st)"
    using ct[unfolded f counting_engine_world n] by simp
  have "world st' = (fst (world st), snd (world st) + 47)"
    using w[unfolded f counting_engine_world]
    by (simp add: counting_engine_def fold_count)
  then have p: "mPopulation st' = mPopulation st + 47" by (simp add: world_def)
  from evolveAll_mBrainList[OF ev] assms have "mBrainList st' = []" by simp
  with ev oc c p show ?thesis by blast
qed


section \<open>Lemmas about the binding table\<close>

text \<open>
  Detaching a bound brain and requesting a brain keep the invariant of the binding table.
\<close>

lemma deleteUnit_keeps_invariant:
  assumes "binding_invariant B st" and "brain \<in> snd ` set (mBrainBodyMap st)"
  shows "binding_invariant B (deleteUnit brain st)"
proof -
  let ?m = "mBrainBodyMap st"
  have s: "set (map snd (right_erase brain ?m)) = set (map snd ?m) - {brain}"
    by (auto simp: right_erase_def)
  have d1: "distinct (map fst (right_erase brain ?m))"
    using assms(1) by (simp add: binding_invariant_def right_erase_def distinct_map_filter)
  have d2: "distinct (map snd (right_erase brain ?m))"
    using assms(1) by (simp add: binding_invariant_def right_erase_def distinct_map_filter)
  from assms have nw: "brain \<notin> set (mWaitingBrainList st)"
    by (auto simp: binding_invariant_def)
  show ?thesis
    using assms d1 d2 nw s
    by (auto simp: binding_invariant_def deleteUnit_def)
qed

lemma distinct_map_insort_key:
  "distinct (map g (insort_key f x xs)) = (g x \<notin> g ` set xs \<and> distinct (map g xs))"
  by (induction xs) (auto simp: set_insort_key)

lemma get_organism_keeps_invariant:
  assumes "binding_invariant B st" and "get_organism st body = Inr (brain, st')"
  shows "binding_invariant B st'"
proof (cases "left_find (mBrainBodyMap st) body")
  case (Some b)
  with assms show ?thesis by (simp add: get_organism_def)
next
  case None
  then have nb: "body \<notin> fst ` set (mBrainBodyMap st)"
    by (simp add: left_find_def map_of_eq_None_iff)
  from None assms(2) obtain rest where
    w: "mWaitingBrainList st = brain # rest" and
    st': "st' = st\<lparr>mWaitingBrainList := rest,
                   mBrainBodyMap := bbm_insert (body, brain) (mBrainBodyMap st)\<rparr>"
    by (auto simp: get_organism_def split: list.splits)
  from assms(1) w have nr: "brain \<notin> snd ` set (mBrainBodyMap st)" "brain \<notin> set rest" "distinct rest"
    by (auto simp: binding_invariant_def)
  have ins: "bbm_insert (body, brain) (mBrainBodyMap st) = insort_key fst (body, brain) (mBrainBodyMap st)"
    using nb nr by (simp add: bbm_insert_def)
  have se: "set (insort_key fst (body, brain) (mBrainBodyMap st)) = insert (body, brain) (set (mBrainBodyMap st))"
    by (simp add: set_insort_key)
  have d: "distinct (map fst (insort_key fst (body, brain) (mBrainBodyMap st)))"
    "distinct (map snd (insort_key fst (body, brain) (mBrainBodyMap st)))"
    using assms(1) nb nr by (simp_all add: distinct_map_insort_key binding_invariant_def)
  show ?thesis
    using assms(1) w nr d se
    by (auto simp: binding_invariant_def st' ins)
qed

section \<open>The claims\<close>

subsection \<open>C1: the binding table after a release\<close>

text \<open>
  Claim C1 says that the waiting queue and the bound brains always partition the brains,
  and that after \<open>release_organism\<close> the brain waits exactly once and the body has no brain.
  Evaluated on a table where body 1 holds brain 7 and brain 8 waits: the table satisfies
  the invariant for the brains 7 and 8; \<open>release_organism\<close> pushes brain 7 onto the queue
  and leaves the binding in place, so that afterwards the invariant fails, the body still
  has a brain, and \<open>get_organism\<close> hands the body brain 7 again while brain 7 also waits.
  \<open>deleteUnit\<close>, in contrast, erases the binding of the brain it pushes; applied to a
  brain that already waits it makes the brain wait twice.
\<close>

theorem release_organism_keeps_binding:
  "binding_invariant {7, 8} st_bound \<and>
   release_organism True st_bound 1 = Inr (st_bound\<lparr>mWaitingBrainList := [8, 7]\<rparr>) \<and>
   \<not> binding_invariant {7, 8} (st_bound\<lparr>mWaitingBrainList := [8, 7]\<rparr>) \<and>
   have_organism (st_bound\<lparr>mWaitingBrainList := [8, 7]\<rparr>) 1 \<and>
   get_organism (st_bound\<lparr>mWaitingBrainList := [8, 7]\<rparr>) 1 =
     Inr (7, st_bound\<lparr>mWaitingBrainList := [8, 7]\<rparr>) \<and>
   binding_invariant {7, 8} (deleteUnit 7 st_bound) \<and>
   mWaitingBrainList (deleteUnit 8 st_bound) = [8, 8]"
  by (auto simp: binding_invariant_def release_organism_def get_organism_def have_organism_def
      left_find_def AssertMsg_def deleteUnit_def right_erase_def st_bound_def st_idle_def)

subsection \<open>C2: the placeholder assertion of the fitness pass\<close>

text \<open>
  Claim C2. On every state that a controller reaches from a constructor, whatever the
  number of its brains and the age of their organisms, \<open>evaluateAll\<close> with assertions
  enabled stops at the assertion about \<open>doCalculations\<close>, and so does \<open>ProcessTick\<close>:
  neither the normalization nor the evolution step is reached. No brain is ever listed in
  \<open>mBrainList\<close>, so the assertions of the first loop are never met before it.
\<close>

theorem evaluateAll_hits_doCalculations:
  assumes "reachable True eng st"
  shows "evaluateAll True st =
           Inl (AssertionFailed ''FIXME/TODO: mScoreHelper->doCalculations()'') \<and>
         ProcessTick True eng found st =
           Inl (AssertionFailed ''FIXME/TODO: mScoreHelper->doCalculations()'')"
  using reachable_unlisted[OF assms]
  by (simp add: evaluateAll_unlisted_True ProcessTick_unlisted_True)

text \<open>
  A controller built for a population of 47, all brains waiting and old enough, and one
  built for a single organism whose brain is bound to a body.
\<close>

theorem evaluateAll_hits_doCalculations_witness:
  "reachable True counting_engine st_47 \<and> length (mWaitingBrainList st_47) = 47 \<and>
   eligible st_47 0 \<and>
   evaluateAll True st_47 =
     Inl (AssertionFailed ''FIXME/TODO: mScoreHelper->doCalculations()'') \<and>
   ProcessTick True counting_engine everybody_found st_47 =
     Inl (AssertionFailed ''FIXME/TODO: mScoreHelper->doCalculations()'') \<and>
   reachable True single_engine st_play \<and> have_organism st_play 1 \<and>
   ProcessTick True single_engine nobody_found st_play =
     Inl (AssertionFailed ''FIXME/TODO: mScoreHelper->doCalculations()'')"
proof -
  have r: "reachable True counting_engine st_47"
    by (rule reachable.constructed[OF st_47_constructed])
  have e: "eligible st_47 0"
    by (simp add: eligible_def organism_of_def st_47_fields st_47_brains world_47_def)
  have h: "have_organism st_play 1"
    by (simp add: have_organism_def left_find_def st_play_fields)
  from evaluateAll_hits_doCalculations[OF r, of everybody_found]
    evaluateAll_hits_doCalculations[OF st_play_reachable(1), of nobody_found]
    r e h st_play_reachable(1)
  show ?thesis by (simp add: st_47_fields)
qed

subsection \<open>C3: an evolution cycle that removes nothing\<close>

text \<open>
  Claim C3 as stated fails. In the scheduling scenario the one bound body has gone, so the
  tick counts the fifth deletion and the thirteenth tick and runs an evolution cycle; the
  engine removes nothing; the tick counter, 12 before the tick, is 0 after it.
\<close>

theorem reset_without_removal:
  "fst (remove_worst idle_engine (world st_scenario)) = None \<and>
   mEvolutionTickCount st_scenario = 12 \<and>
   ProcessTick False idle_engine nobody_found st_scenario =
     Inr (st_scenario\<lparr>mSpawnTickCount := 1, mEvolutionTickCount := 0,
                      mWaitingBrainList := [8, 7], mBrainBodyMap := [],
                      mTotalUnitsDeleted := 5\<rparr>)"
  by (simp add: ProcessTick_def tick_scan_def evaluateAll_def evolveAll_def idle_engine_def
      nobody_found_def Let_def AssertMsg_def deleteUnit_def right_erase_def world_def
      set_world_def st_scenario_def st_bound_def st_idle_def)

text \<open>
  Claim C3, amended. When the activation test of a tick holds and \<open>remove_worst\<close> returns
  null on the state the fitness pass left, the tick returns; the cycle leaves the offspring
  counter, the compatibility threshold, the brains, the waiting queue, the bindings and the
  deletion counter as they were, and the world as \<open>remove_worst\<close> left it; the tick
  counter is reset to zero all the same.
\<close>

theorem no_removal_still_resets:
  assumes ev: "evaluateAll False (tick_scan found st) = Inr st3"
      and due: "evolution_due found st"
      and none: "fst (remove_worst eng (world st3)) = None"
  shows "\<exists>st'. ProcessTick False eng found st = Inr st' \<and> mEvolutionTickCount st' = 0 \<and>
     world st' = snd (remove_worst eng (world st3)) \<and>
     mOffspringCount st' = mOffspringCount st \<and> compat_threshold st' = compat_threshold st \<and>
     brains st' = brains st \<and> mBrainList st' = mBrainList st \<and>
     mWaitingBrainList st' = mWaitingBrainList st3 \<and> mBrainBodyMap st' = mBrainBodyMap st3 \<and>
     mTotalUnitsDeleted st' = mTotalUnitsDeleted st3"
proof -
  from evaluateAll_only_orgs[OF ev] obtain os' where
    st3: "st3 = (tick_scan found st)\<lparr>orgs := os'\<rparr>" by blast
  note act = activation_test[OF st3]
  let ?st4 = "set_world (snd (remove_worst eng (world st3))) st3"
  have e4: "evolveAll False eng st3 = Inr ?st4" by (rule evolveAll_None[OF none])
  have pt: "ProcessTick False eng found st = Inr (?st4\<lparr>mEvolutionTickCount := 0\<rparr>)"
    using ev e4 act due by (auto simp: ProcessTick_def Let_def)
  have "world (?st4\<lparr>mEvolutionTickCount := 0\<rparr>) = snd (remove_worst eng (world st3))"
    by (simp add: world_def set_world_def)
  moreover have "mOffspringCount ?st4 = mOffspringCount st" "compat_threshold ?st4 = compat_threshold st"
    "brains ?st4 = brains st" "mBrainList ?st4 = mBrainList st"
    by (simp_all add: set_world_frame st3 tick_scan_frame)
  ultimately show ?thesis using pt by (simp add: set_world_frame)
qed

text \<open>The scheduling scenario with an engine that has nothing to remove.\<close>

theorem no_removal_still_resets_witness:
  "evolution_due nobody_found st_scenario \<and>
   (\<exists>st'. ProcessTick False idle_engine nobody_found st_scenario = Inr st' \<and>
      mEvolutionTickCount st' = 0 \<and> mOffspringCount st' = 0 \<and> compat_threshold st' = 3)"
proof -
  have t: "time_alive_minimum (tick_scan nobody_found st_scenario) \<noteq> 0"
    by (simp add: tick_scan_frame st_scenario_def st_bound_def st_idle_def)
  have d: "evolution_due nobody_found st_scenario"
    by (simp add: evolution_due_def dead_bindings_def nobody_found_def st_scenario_def
        st_bound_def st_idle_def)
  from evaluateAll_False[OF t] obtain os' where
    ev: "evaluateAll False (tick_scan nobody_found st_scenario) =
           Inr ((tick_scan nobody_found st_scenario)\<lparr>orgs := os'\<rparr>)" by blast
  have none: "fst (remove_worst idle_engine w) = None" for w
    by (simp add: idle_engine_def)
  have c: "mOffspringCount st_scenario = 0" "compat_threshold st_scenario = 3"
    by (simp_all add: st_scenario_def st_bound_def st_idle_def)
  from no_removal_still_resets[OF ev d none] c d show ?thesis by auto
qed

subsection \<open>C4: fitness normalization\<close>

text \<open>
  Claim C4 says that one pass sets the fitness of every eligible organism that is not
  smited to its brain's score, shifted when a score is negative. The loops of
  \<open>evaluateAll\<close> run over \<open>mBrainList\<close>, and the constructors put the brains they create
  on \<open>mWaitingBrainList\<close> only. Evaluated on the controller built for a population of 47
  whose organisms have been alive for one tick and have fitness 2: brain 1 waits, is
  eligible, is not smited and has the score 0; with assertions compiled out the pass
  returns the state it was given, and the fitness of the organism of brain 1 is still 2.
\<close>

theorem fitness_pass_skips_every_brain:
  "RTNEAT_ctor False counting_engine world_47 47 raw_47 = Inr st_47 \<and>
   mWaitingBrainList st_47 = [0..<47] \<and> mBrainList st_47 = [] \<and>
   eligible st_47 1 \<and> \<not> smited (orgs st_47 (organism_of st_47 1)) \<and>
   mAbsoluteScore (brains st_47 1) = 0 \<and>
   fitness (orgs st_47 (organism_of st_47 1)) = 2 \<and>
   evaluateAll False st_47 = Inr st_47"
proof -
  have "mWaitingBrainList st_47 = [0..<47] \<and> mBrainList st_47 = [] \<and>
   eligible st_47 1 \<and> \<not> smited (orgs st_47 (organism_of st_47 1)) \<and>
   mAbsoluteScore (brains st_47 1) = 0 \<and>
   fitness (orgs st_47 (organism_of st_47 1)) = 2 \<and>
   evaluateAll False st_47 = Inr st_47"
    by (simp add: st_47_fields st_47_brains eligible_def organism_of_def
        world_47_def evaluateAll_unlisted_False)
  with st_47_constructed[of False] show ?thesis by (rule conjI)
qed

subsection \<open>C5: requesting a brain from an empty queue\<close>

text \<open>
  Claim C5 says that a request for an unbound body fails an assertion when no brain waits.
  Evaluated on the controller built for a population of one: body 1 receives the one
  brain; body 2 is then unbound and \<open>ready\<close> is false; \<open>get_organism\<close> for body 2 has no
  assertion to fail and calls \<open>front()\<close> and \<open>pop()\<close> on the empty queue, which is undefined
  behaviour. \<open>release_organism\<close> for the same unbound body, in contrast, fails its assertion.
\<close>

theorem request_on_empty_queue:
  "RTNEAT_ctor True single_engine (orgs st_idle, ()) 1 raw_single = Inr st_single \<and>
   get_organism st_single 1 = Inr (0, st_play) \<and>
   \<not> have_organism st_play 2 \<and> \<not> ready st_play \<and>
   get_organism st_play 2 = Inl (UndefinedBehaviour ''front() of an empty queue'') \<and>
   release_organism True st_play 2 =
     Inl (AssertionFailed ''found != mBrainBodyMap.left.end()'')"
proof -
  have "\<not> have_organism st_play 2 \<and> \<not> ready st_play \<and>
   get_organism st_play 2 = Inl (UndefinedBehaviour ''front() of an empty queue'') \<and>
   release_organism True st_play 2 =
     Inl (AssertionFailed ''found != mBrainBodyMap.left.end()'')"
    by (simp add: get_organism_def release_organism_def have_organism_def ready_def
        left_find_def AssertMsg_def st_play_fields)
  with st_single_constructed(1)[of True] st_single_request show ?thesis by blast
qed

subsection \<open>C6: the target number of species\<close>

text \<open>
  Claim C6 names 5 as the target, the value of the constant \<open>kNumSpeciesTarget\<close> that the
  file declares and never uses. The adjustment compares with its local target 4: with 4
  species a threshold of 3 stays 3 where the claim lowers it, with 5 species it rises to
  3.1 where the claim keeps it, and only below 4 species it drops by 0.1.
\<close>

theorem species_target_is_four:
  "adjust_compat_threshold 4 3 = 3 \<and> adjust_compat_threshold 5 3 = 3.1 \<and>
   adjust_compat_threshold 3 3 = 2.9"
  by (simp add: adjust_compat_threshold_def Let_def)

subsection \<open>C7: when an evolution cycle runs\<close>




subsection \<open>C8: the floor of the compatibility threshold\<close>

text \<open>
  Claim C8. Every adjustment yields a threshold of at least 0.3; and from a threshold of
  at least 0.3, any number of evolution cycles in a row, run with assertions compiled out,
  return with a threshold of at least 0.3.
\<close>

theorem compat_threshold_floor:
  "0.3 \<le> adjust_compat_threshold n ct \<and>
   (0.3 \<le> compat_threshold st \<longrightarrow>
      (\<exists>st'. evolve_cycles False eng k st = Inr st' \<and> 0.3 \<le> compat_threshold st'))"
proof -
  have "0.3 \<le> compat_threshold st \<Longrightarrow>
      \<exists>st'. evolve_cycles False eng k st = Inr st' \<and> 0.3 \<le> compat_threshold st'"
  proof (induction k arbitrary: st)
    case 0
    then show ?case by simp
  next
    case (Suc k)
    from evolveAll_False_total[of eng st] Suc.prems obtain st1 where
      s: "evolveAll False eng st = Inr st1" "0.3 \<le> compat_threshold st1" by blast
    from Suc.IH[OF s(2)] s(1) show ?case by simp
  qed
  with adjust_compat_threshold_floor show ?thesis by blast
qed

text \<open>
  With three species, below the target, a threshold of 0.35 is lowered and stopped at 0.3;
  eight cycles from a threshold of 3 stay above the floor.
\<close>

theorem compat_threshold_floor_witness:
  "adjust_compat_threshold 3 0.35 = 0.3 \<and> 0.3 \<le> adjust_compat_threshold 3 0.35 \<and>
   0.3 \<le> compat_threshold st_47 \<and>
   (\<exists>st'. evolve_cycles False counting_engine 8 st_47 = Inr st' \<and> 0.3 \<le> compat_threshold st')"
proof -
  have a: "adjust_compat_threshold 3 0.35 = 0.3"
    by (simp add: adjust_compat_threshold_def Let_def)
  have b: "0.3 \<le> compat_threshold st_47" by (simp add: st_47_fields)
  from compat_threshold_floor[of 3 "0.35" st_47 counting_engine 8] a b show ?thesis by blast
qed

subsection \<open>C9: smiting\<close>

text \<open>
  Claim C9 says that of two eligible organisms with the same raw score the smited one ends
  with 0.01 times the fitness of the other. The factor is applied in the loops over
  \<open>mBrainList\<close>, which the constructors leave empty. Evaluated on the controller built for
  a population of 47: the brains 0 and 1 are eligible and have the same score, the organism
  of brain 0 is smited and that of brain 1 is not; with assertions compiled out the pass
  returns the state it was given, and both organisms still have the fitness 2.
\<close>

theorem smiting_never_applied:
  "RTNEAT_ctor False counting_engine world_47 47 raw_47 = Inr st_47 \<and>
   eligible st_47 0 \<and> eligible st_47 1 \<and>
   mAbsoluteScore (brains st_47 0) = mAbsoluteScore (brains st_47 1) \<and>
   smited (orgs st_47 (organism_of st_47 0)) \<and>
   \<not> smited (orgs st_47 (organism_of st_47 1)) \<and>
   evaluateAll False st_47 = Inr st_47 \<and>
   fitness (orgs st_47 (organism_of st_47 0)) = 2 \<and>
   fitness (orgs st_47 (organism_of st_47 1)) = 2"
proof -
  have "eligible st_47 0 \<and> eligible st_47 1 \<and>
   mAbsoluteScore (brains st_47 0) = mAbsoluteScore (brains st_47 1) \<and>
   smited (orgs st_47 (organism_of st_47 0)) \<and>
   \<not> smited (orgs st_47 (organism_of st_47 1)) \<and>
   evaluateAll False st_47 = Inr st_47 \<and>
   fitness (orgs st_47 (organism_of st_47 0)) = 2 \<and>
   fitness (orgs st_47 (organism_of st_47 1)) = 2"
    by (simp add: st_47_fields st_47_brains eligible_def organism_of_def
        world_47_def evaluateAll_unlisted_False)
  with st_47_constructed[of False] show ?thesis by (rule conjI)
qed

subsection \<open>C10: the cadence of the re-tuning\<close>

text \<open>
  Claim C10 says that 47 brains give the frequency 4 and that the re-tuning falls on the
  4th, 8th, 12th reproduction. The frequency is computed from the length of \<open>mBrainList\<close>,
  which the constructors leave empty. Evaluated on the controller built for a population
  of 47, with 47 brains waiting: the frequency is 1; the first cycle lowers the threshold
  from 3 to 2.9 and reassigns the 47 organisms, and the second lowers it to 2.8 and
  reassigns them again.
\<close>

theorem retunes_on_every_reproduction:
  "RTNEAT_ctor False counting_engine world_47 47 raw_47 = Inr st_47 \<and>
   length (mWaitingBrainList st_47) = 47 \<and> mOffspringCount st_47 = 47 \<and>
   compat_threshold st_47 = 3 \<and> compat_adjust_frequency st_47 = 1 \<and>
   \<not> isl (evolve_cycles False counting_engine 1 st_47) \<and>
   mOffspringCount (projr (evolve_cycles False counting_engine 1 st_47)) = 48 \<and>
   compat_threshold (projr (evolve_cycles False counting_engine 1 st_47)) = 2.9 \<and>
   mPopulation (projr (evolve_cycles False counting_engine 1 st_47)) = 47 \<and>
   \<not> isl (evolve_cycles False counting_engine 2 st_47) \<and>
   mOffspringCount (projr (evolve_cycles False counting_engine 2 st_47)) = 49 \<and>
   compat_threshold (projr (evolve_cycles False counting_engine 2 st_47)) = 2.8 \<and>
   mPopulation (projr (evolve_cycles False counting_engine 2 st_47)) = 94"
proof -
  from counting_engine_cycle[OF st_47_fields(1)] obtain st1 where
    s1: "evolveAll False counting_engine st_47 = Inr st1" "mBrainList st1 = []"
      "mOffspringCount st1 = 48" "compat_threshold st1 = 2.9" "mPopulation st1 = 47"
    by (auto simp: st_47_fields adjust_compat_threshold_def Let_def)
  from counting_engine_cycle[OF s1(2)] obtain st2 where
    s2: "evolveAll False counting_engine st1 = Inr st2"
      "mOffspringCount st2 = 49" "compat_threshold st2 = 2.8" "mPopulation st2 = 94"
    by (auto simp: s1 adjust_compat_threshold_def Let_def)
  have c1: "evolve_cycles False counting_engine 1 st_47 = Inr st1"
    using s1(1) by simp
  have c2: "evolve_cycles False counting_engine 2 st_47 = Inr st2"
    using s1(1) s2(1) by (simp add: numeral_2_eq_2)
  have a: "length (mWaitingBrainList st_47) = 47 \<and> mOffspringCount st_47 = 47 \<and>
   compat_threshold st_47 = 3 \<and> compat_adjust_frequency st_47 = 1"
    by (simp add: st_47_fields compat_adjust_frequency_unlisted)
  have b: "\<not> isl (evolve_cycles False counting_engine 1 st_47) \<and>
   mOffspringCount (projr (evolve_cycles False counting_engine 1 st_47)) = 48 \<and>
   compat_threshold (projr (evolve_cycles False counting_engine 1 st_47)) = 2.9 \<and>
   mPopulation (projr (evolve_cycles False counting_engine 1 st_47)) = 47 \<and>
   \<not> isl (evolve_cycles False counting_engine 2 st_47) \<and>
   mOffspringCount (projr (evolve_cycles False counting_engine 2 st_47)) = 49 \<and>
   compat_threshold (projr (evolve_cycles False counting_engine 2 st_47)) = 2.8 \<and>
   mPopulation (projr (evolve_cycles False counting_engine 2 st_47)) = 94"
    unfolding c1 c2 using s1 s2 by simp
  from st_47_constructed[of False] a b show ?thesis by blast
qed

end
